theory Spec2Isabelle
  imports Complex_Main "HOL-Library.Word"
begin

unbundle bit_operations_syntax

section \<open>Platform values used by the live-chat component\<close>

text \<open>
  The component \<open>LiveProfessor\<close> (first document of \<open>src/unnamed/part_000\<close>) converts
  microphone samples to base64 PCM and server audio back to samples.

  Sample values are elements of a \<open>Float32Array\<close>. Every arithmetic step the codec
  performs on them is exact in IEEE arithmetic: a finite float32 widened to a double and
  multiplied by \<open>32768 = 2^15\<close> is a double, truncation to an integer is exact, and an
  \<open>Int16\<close> divided by \<open>32768.0\<close> has at most 16 significant bits and is stored in a
  float32 unchanged. The samples are therefore modelled as rationals (\<open>rat\<close>), the finite
  float32 values being a subset of them. The same type stands for the readings of the
  audio clock (\<open>ctx.currentTime\<close>) and for buffer durations.
\<close>

type_synonym number = rat

text \<open>
  A \<open>Uint8Array\<close> is a list of 8-bit words, an \<open>Int16Array\<close> a list of 16-bit words read
  with \<open>sint\<close>. A "binary string" (what \<open>atob\<close> returns and \<open>btoa\<close> accepts: one
  character per byte, built here with \<open>String.fromCharCode(bytes[i])\<close> and read back
  with \<open>charCodeAt(i)\<close>) is represented by the list of its character codes, each a
  byte.
\<close>

type_synonym uint8 = "8 word"
type_synonym int16 = "16 word"
type_synonym binary_string = "uint8 list"

text \<open>The exceptions that platform and service calls raise in the modelled code.\<close>

datatype js_error =
    InvalidCharacterError  \<comment> \<open>\<open>atob\<close> on a string that is not base64\<close>
  | RangeError             \<comment> \<open>\<open>new Int16Array(buffer)\<close> on a buffer of odd byte length\<close>
  | NotSupportedError      \<comment> \<open>\<open>ctx.createBuffer\<close> with a length of zero frames\<close>
  | NotAllowedError        \<comment> \<open>\<open>getUserMedia\<close> refused\<close>
  | ApiError               \<comment> \<open>a rejected call of the remote service\<close>

subsection \<open>\<open>btoa\<close> and \<open>atob\<close>\<close>

definition b64_alphabet :: string where
  "b64_alphabet = ''ABCDEFGHIJKLMNOPQRSTUVWXYZabcdefghijklmnopqrstuvwxyz0123456789+/''"

definition b64_char :: "nat \<Rightarrow> char" where
  "b64_char n = b64_alphabet ! n"

fun index_of :: "char \<Rightarrow> string \<Rightarrow> nat \<Rightarrow> nat option" where
  "index_of c [] i = None"
| "index_of c (x # xs) i = (if c = x then Some i else index_of c xs (Suc i))"

definition b64_value :: "char \<Rightarrow> nat option" where
  "b64_value c = index_of c b64_alphabet 0"

text \<open>\<open>btoa\<close>: three bytes give four characters; a last group of one or two bytes is padded.\<close>

fun btoa_codes :: "nat list \<Rightarrow> string" where
  "btoa_codes (a # b # c # rest) =
     b64_char (a div 4) # b64_char ((a mod 4) * 16 + b div 16) #
     b64_char ((b mod 16) * 4 + c div 64) # b64_char (c mod 64) # btoa_codes rest"
| "btoa_codes [a, b] =
     [b64_char (a div 4), b64_char ((a mod 4) * 16 + b div 16), b64_char ((b mod 16) * 4), CHR ''='']"
| "btoa_codes [a] = [b64_char (a div 4), b64_char ((a mod 4) * 16), CHR ''='', CHR ''='']"
| "btoa_codes [] = []"

definition btoa :: "binary_string \<Rightarrow> string" where
  "btoa binary = btoa_codes (map unat binary)"

text \<open>
  The output of \<open>btoa_codes\<close> read in two parts: the 6-bit values of its alphabet
  characters and the padding that follows them.
\<close>

fun sextets :: "nat list \<Rightarrow> nat list" where
  "sextets (a # b # c # rest) =
     (a div 4) # ((a mod 4) * 16 + b div 16) # ((b mod 16) * 4 + c div 64) # (c mod 64) # sextets rest"
| "sextets [a, b] = [a div 4, (a mod 4) * 16 + b div 16, (b mod 16) * 4]"
| "sextets [a] = [a div 4, (a mod 4) * 16]"
| "sextets [] = []"

fun padding :: "nat list \<Rightarrow> string" where
  "padding (a # b # c # rest) = padding rest"
| "padding [a, b] = ''=''"
| "padding [a] = ''==''"
| "padding [] = []"

text \<open>
  \<open>atob\<close> is the forgiving base64 decoder of the HTML standard: ASCII whitespace is
  removed; when the length is a multiple of four, one or two trailing \<open>=\<close> are removed;
  a length of 1 modulo 4 or a character outside the alphabet is an error; every four
  characters give three bytes, and a last group of two or three characters gives one or
  two bytes, the left-over bits being dropped.
\<close>

definition ascii_whitespace :: "char \<Rightarrow> bool" where
  "ascii_whitespace c = (of_char c \<in> {9, 10, 12, 13, 32 :: nat})"

definition strip_padding :: "string \<Rightarrow> string" where
  "strip_padding d =
     (if length d mod 4 = 0 then
        (if 2 \<le> length d \<and> drop (length d - 2) d = ''=='' then take (length d - 2) d
         else if 1 \<le> length d \<and> drop (length d - 1) d = ''='' then take (length d - 1) d
         else d)
      else d)"

fun option_all :: "'a option list \<Rightarrow> 'a list option" where
  "option_all [] = Some []"
| "option_all (None # xs) = None"
| "option_all (Some x # xs) = (case option_all xs of None \<Rightarrow> None | Some ys \<Rightarrow> Some (x # ys))"

fun atob_groups :: "nat list \<Rightarrow> nat list" where
  "atob_groups (a # b # c # d # rest) =
     (a * 4 + b div 16) # ((b mod 16) * 16 + c div 4) # ((c mod 4) * 64 + d) # atob_groups rest"
| "atob_groups [a, b, c] = [a * 4 + b div 16, (b mod 16) * 16 + c div 4]"
| "atob_groups [a, b] = [a * 4 + b div 16]"
| "atob_groups [a] = []"
| "atob_groups [] = []"

definition atob :: "string \<Rightarrow> js_error + binary_string" where
  "atob base64 =
     (let d = strip_padding (filter (\<lambda>c. \<not> ascii_whitespace c) base64) in
      if length d mod 4 = 1 then Inl InvalidCharacterError
      else case option_all (map b64_value d) of
             None \<Rightarrow> Inl InvalidCharacterError
           | Some vs \<Rightarrow> Inr (map word_of_nat (atob_groups vs)))"

section \<open>PCM codec: \<open>createBlob\<close> and \<open>decodeAudioData\<close>\<close>

text \<open>
  \<open>int16[i] = x\<close> stores \<open>ToInt16(x)\<close>: the number is truncated towards zero and
  reduced modulo \<open>2^16\<close> into the signed 16-bit range.
\<close>

definition trunc :: "number \<Rightarrow> int" where
  "trunc x = (if x < 0 then - \<lfloor>- x\<rfloor> else \<lfloor>x\<rfloor>)"

definition ToInt16 :: "number \<Rightarrow> int16" where
  "ToInt16 x = word_of_int (trunc x)"

text \<open>
  \<open>new Uint8Array(int16.buffer)\<close> and \<open>new Int16Array(bytes.buffer)\<close> view the same
  memory; the element order is little-endian. The second constructor raises a
  \<open>RangeError\<close> when the byte length is not a multiple of the element size.
\<close>

fun Uint8Array_of_Int16 :: "int16 list \<Rightarrow> uint8 list" where
  "Uint8Array_of_Int16 [] = []"
| "Uint8Array_of_Int16 (w # ws) = ucast w # ucast (drop_bit 8 w) # Uint8Array_of_Int16 ws"

fun Int16_pairs :: "uint8 list \<Rightarrow> int16 list" where
  "Int16_pairs (lo # hi # bs) = (ucast lo OR push_bit 8 (ucast hi)) # Int16_pairs bs"
| "Int16_pairs bs = []"

definition Int16Array_of_Uint8 :: "uint8 list \<Rightarrow> js_error + int16 list" where
  "Int16Array_of_Uint8 bytes =
     (if length bytes mod 2 \<noteq> 0 then Inl RangeError else Inr (Int16_pairs bytes))"

record Blob =
  data :: string
  mimeType :: string

definition createBlob :: "number list \<Rightarrow> Blob" where
  "createBlob samples =
     (let int16 = map (\<lambda>x. ToInt16 (x * 32768)) samples;
          bytes = Uint8Array_of_Int16 int16;
          binary = bytes;
          base64Data = btoa binary
      in \<lparr> data = base64Data, mimeType = ''audio/pcm;rate=16000'' \<rparr>)"

record AudioBuffer =
  numberOfChannels :: nat
  sampleRate :: nat
  channelData :: "number list"

definition duration :: "AudioBuffer \<Rightarrow> number" where
  "duration b = of_nat (length (channelData b)) / of_nat (sampleRate b)"

text \<open>\<open>ctx.createBuffer(channels, length, rate)\<close>: a silent buffer; zero frames are refused.\<close>

definition createBuffer :: "nat \<Rightarrow> nat \<Rightarrow> nat \<Rightarrow> js_error + AudioBuffer" where
  "createBuffer channels frameCount rate =
     (if frameCount = 0 then Inl NotSupportedError
      else Inr \<lparr> numberOfChannels = channels, sampleRate = rate,
                 channelData = replicate frameCount 0 \<rparr>)"

definition decodeAudioData :: "string \<Rightarrow> js_error + AudioBuffer" where
  "decodeAudioData base64 =
     (case atob base64 of
        Inl e \<Rightarrow> Inl e
      | Inr binaryString \<Rightarrow>
          (let bytes = binaryString in
           case Int16Array_of_Uint8 bytes of
             Inl e \<Rightarrow> Inl e
           | Inr dataInt16 \<Rightarrow>
               (case createBuffer 1 (length dataInt16) 24000 of
                  Inl e \<Rightarrow> Inl e
                | Inr buffer \<Rightarrow>
                    Inr (buffer\<lparr> channelData :=
                           map (\<lambda>w. of_int (sint w) / 32768) dataInt16 \<rparr>))))"

section \<open>The live session component\<close>

text \<open>
  The state of one \<open>LiveProfessor\<close> instance: its React state (\<open>isActive\<close>, \<open>status\<close>,
  \<open>errorMessage\<close>) and its refs. A ref that is \<open>null\<close> is \<open>None\<close>. The \<open>Set\<close> of
  source nodes keeps insertion order and is a list without repetitions; a node is
  identified by the number \<open>node\<close>, taken from the count \<open>created\<close> of nodes made so far.

  Calls on objects outside the component (the remote session, audio nodes, contexts,
  media tracks) are recorded in order in the trace \<open>effects\<close>. The field \<open>cleanups\<close>
  counts the invocations of \<open>cleanup\<close>; neither field exists in the source, they only
  observe it.
\<close>

datatype status = connecting | listening | speaking | error

datatype AudioContext = AudioContext nat  \<comment> \<open>the \<open>sampleRate\<close> option\<close>
datatype MediaStream = MediaStream (getTracks: "nat list")
datatype ScriptProcessorNode = ScriptProcessorNode nat  \<comment> \<open>the buffer size\<close>
datatype SessionPromise = SessionPromise

type_synonym UploadedFile = Blob

record AudioBufferSourceNode =
  node :: nat
  buffer :: AudioBuffer

datatype effect =
    LiveConnect                 \<comment> \<open>\<open>ai.live.connect(...)\<close>\<close>
  | SendRealtimeInput Blob      \<comment> \<open>\<open>session.sendRealtimeInput({ media })\<close>\<close>
  | CaptureConnect              \<comment> \<open>\<open>source.connect(processor); processor.connect(inputCtx.destination)\<close>\<close>
  | ProcessorDisconnect         \<comment> \<open>\<open>processorRef.current.disconnect()\<close>\<close>
  | TrackStop nat               \<comment> \<open>\<open>track.stop()\<close>\<close>
  | ContextClose AudioContext   \<comment> \<open>\<open>close()\<close> of an audio context\<close>
  | SourceStart nat number      \<comment> \<open>\<open>source.start(when)\<close>\<close>
  | SourceStop nat              \<comment> \<open>\<open>s.stop()\<close>\<close>

record LiveProfessor =
  isActive :: bool
  status :: status
  errorMessage :: string
  sessionPromiseRef :: "SessionPromise option"
  audioContextRef :: "AudioContext option"
  inputContextRef :: "AudioContext option"
  streamRef :: "MediaStream option"
  processorRef :: "ScriptProcessorNode option"
  nextStartTimeRef :: number
  sourcesRef :: "AudioBufferSourceNode list"
  created :: nat
  effects :: "effect list"
  cleanups :: nat

definition initial :: LiveProfessor where
  "initial = \<lparr> isActive = False, status = connecting, errorMessage = [],
       sessionPromiseRef = None, audioContextRef = None, inputContextRef = None,
       streamRef = None, processorRef = None, nextStartTimeRef = 0, sourcesRef = [],
       created = 0, effects = [], cleanups = 0 \<rparr>"

subsection \<open>\<open>startSession\<close>\<close>

text \<open>
  The argument is the outcome of \<open>navigator.mediaDevices.getUserMedia\<close>, the awaited call
  of the \<open>try\<close> block: a rejection reaches the \<open>catch\<close> block with both audio contexts
  already stored.
\<close>

definition startSession :: "js_error + MediaStream \<Rightarrow> LiveProfessor \<Rightarrow> LiveProfessor" where
  "startSession getUserMedia s =
     (let s1 = s\<lparr> errorMessage := [], status := connecting \<rparr>;
          outputCtx = AudioContext 24000;
          s2 = s1\<lparr> audioContextRef := Some outputCtx \<rparr>;
          inputCtx = AudioContext 16000;
          s3 = s2\<lparr> inputContextRef := Some inputCtx \<rparr>
      in case getUserMedia of
           Inl err \<Rightarrow>
             s3\<lparr> errorMessage := ''Could not access microphone or connect.'', status := error \<rparr>
         | Inr stream \<Rightarrow>
             (let s4 = s3\<lparr> streamRef := Some stream \<rparr>;
                  s5 = s4\<lparr> effects := effects s4 @ [LiveConnect] \<rparr>
              in s5\<lparr> sessionPromiseRef := Some SessionPromise \<rparr>))"

subsection \<open>The session callbacks\<close>

definition ready_signal :: Blob where
  "ready_signal =
     \<lparr> data = btoa (map of_char ''I have uploaded the book pages. I am ready to ask questions.''),
       mimeType = ''text/plain'' \<rparr>"

text \<open>
  \<open>onopen\<close>: the two state setters, the registration of the sends on the session promise
  (skipped when the ref is \<open>null\<close>), then the microphone processing. The registered
  sends run once the callback has returned, so they follow \<open>CaptureConnect\<close> in the trace.
\<close>

definition onopen :: "UploadedFile list \<Rightarrow> LiveProfessor \<Rightarrow> LiveProfessor" where
  "onopen files s =
     (let s1 = s\<lparr> status := listening \<rparr>;
          s2 = s1\<lparr> isActive := True \<rparr>;
          sends = (case sessionPromiseRef s2 of
                     None \<Rightarrow> []
                   | Some session \<Rightarrow>
                       map (\<lambda>file. SendRealtimeInput \<lparr> data = data file, mimeType = mimeType file \<rparr>) files
                       @ [SendRealtimeInput ready_signal]);
          processor = ScriptProcessorNode 4096;
          s3 = s2\<lparr> processorRef := Some processor \<rparr>
      in s3\<lparr> effects := effects s3 @ [CaptureConnect] @ sends \<rparr>)"

definition onaudioprocess :: "number list \<Rightarrow> LiveProfessor \<Rightarrow> LiveProfessor" where
  "onaudioprocess inputData s =
     (let pcmBlob = createBlob inputData
      in case sessionPromiseRef s of
           None \<Rightarrow> s
         | Some session \<Rightarrow> s\<lparr> effects := effects s @ [SendRealtimeInput pcmBlob] \<rparr>)"

text \<open>
  A server message, reduced to the two values \<open>onmessage\<close> reads from it:
  \<open>msg.serverContent?.modelTurn?.parts?.[0]?.inlineData?.data\<close> (\<open>None\<close> when the chain
  is \<open>undefined\<close>) and the truth of \<open>msg.serverContent?.interrupted\<close>.
\<close>

record LiveServerMessage =
  base64Audio :: "string option"
  interrupted :: bool

text \<open>
  The block "Handle Audio Output" of \<open>onmessage\<close>. \<open>currentTime\<close> is the value of
  \<open>ctx.currentTime\<close> read by \<open>Math.max\<close>. An exception of \<open>decodeAudioData\<close> leaves the
  handler with the status and the cursor already written.
\<close>

definition handleAudioOutput ::
    "number \<Rightarrow> LiveServerMessage \<Rightarrow> LiveProfessor \<Rightarrow> js_error option \<times> LiveProfessor" where
  "handleAudioOutput currentTime msg s =
     (case base64Audio msg of
        None \<Rightarrow> (None, s)
      | Some b \<Rightarrow>
          if b \<noteq> [] \<and> audioContextRef s \<noteq> None then
            (let s1 = s\<lparr> status := speaking \<rparr>;
                 s2 = s1\<lparr> nextStartTimeRef := max (nextStartTimeRef s1) currentTime \<rparr>
             in case decodeAudioData b of
                  Inl e \<Rightarrow> (Some e, s2)
                | Inr buf \<Rightarrow>
                    (let source = \<lparr> node = created s2, buffer = buf \<rparr>;
                         s3 = s2\<lparr> created := Suc (created s2) \<rparr>;
                         s4 = s3\<lparr> effects := effects s3 @ [SourceStart (node source) (nextStartTimeRef s3)] \<rparr>;
                         s5 = s4\<lparr> nextStartTimeRef := nextStartTimeRef s4 + duration buf \<rparr>
                     in (None, s5\<lparr> sourcesRef := sourcesRef s5 @ [source] \<rparr>)))
          else (None, s))"

text \<open>The block "Handle Interruption" of \<open>onmessage\<close>.\<close>

definition handleInterruption :: "LiveServerMessage \<Rightarrow> LiveProfessor \<Rightarrow> LiveProfessor" where
  "handleInterruption msg s =
     (if interrupted msg then
        (let s1 = s\<lparr> effects := effects s @ map (\<lambda>x. SourceStop (node x)) (sourcesRef s) \<rparr>;
             s2 = s1\<lparr> sourcesRef := [] \<rparr>;
             s3 = s2\<lparr> nextStartTimeRef := 0 \<rparr>
         in s3\<lparr> status := listening \<rparr>)
      else s)"

definition onmessage ::
    "number \<Rightarrow> LiveServerMessage \<Rightarrow> LiveProfessor \<Rightarrow> js_error option \<times> LiveProfessor" where
  "onmessage currentTime msg s =
     (case handleAudioOutput currentTime msg s of
        (Some e, s') \<Rightarrow> (Some e, s')
      | (None, s') \<Rightarrow> (None, handleInterruption msg s'))"

text \<open>The \<open>ended\<close> listener of the source node \<open>n\<close>.\<close>

definition ended :: "nat \<Rightarrow> LiveProfessor \<Rightarrow> LiveProfessor" where
  "ended n s =
     (let s1 = s\<lparr> sourcesRef := filter (\<lambda>x. node x \<noteq> n) (sourcesRef s) \<rparr>
      in if length (sourcesRef s1) = 0 then s1\<lparr> status := listening \<rparr> else s1)"

subsection \<open>\<open>cleanup\<close>\<close>

definition cleanup :: "LiveProfessor \<Rightarrow> LiveProfessor" where
  "cleanup s =
     (let s0 = s\<lparr> cleanups := Suc (cleanups s) \<rparr>;
          s1 = s0\<lparr> isActive := False \<rparr>;
          s2 = (if processorRef s1 \<noteq> None \<and> inputContextRef s1 \<noteq> None
                then s1\<lparr> effects := effects s1 @ [ProcessorDisconnect], processorRef := None \<rparr>
                else s1);
          s3 = (case streamRef s2 of
                  None \<Rightarrow> s2
                | Some stream \<Rightarrow>
                    s2\<lparr> effects := effects s2 @ map TrackStop (getTracks stream), streamRef := None \<rparr>);
          s4 = (case inputContextRef s3 of
                  None \<Rightarrow> s3
                | Some ctx \<Rightarrow> s3\<lparr> effects := effects s3 @ [ContextClose ctx], inputContextRef := None \<rparr>);
          s5 = s4\<lparr> effects := effects s4 @ map (\<lambda>x. SourceStop (node x)) (sourcesRef s4) \<rparr>;
          s6 = s5\<lparr> sourcesRef := [] \<rparr>;
          s7 = (case audioContextRef s6 of
                  None \<Rightarrow> s6
                | Some ctx \<Rightarrow> s6\<lparr> effects := effects s6 @ [ContextClose ctx], audioContextRef := None \<rparr>)
      in s7\<lparr> sessionPromiseRef := None \<rparr>)"

definition onclose :: "LiveProfessor \<Rightarrow> LiveProfessor" where
  "onclose s = cleanup s"

definition onerror :: "LiveProfessor \<Rightarrow> LiveProfessor" where
  "onerror s =
     (let s1 = s\<lparr> errorMessage := ''Connection error. Please try again.'' \<rparr>;
          s2 = s1\<lparr> status := error \<rparr>
      in cleanup s2)"

subsection \<open>Events\<close>

text \<open>
  What can happen to a mounted component: the four session callbacks, a microphone
  frame, the end of a source node, the "Retry Connection" button
  (\<open>cleanup(); startSession()\<close>) and the unmounting that "End Session" causes through
  the parent (\<open>useEffect\<close> returns \<open>cleanup\<close>). A handler runs to its end before the next
  event is taken. An exception leaving \<open>onmessage\<close> is an unhandled rejection: the state
  it wrote stays.
\<close>

datatype event =
    Opened
  | Message number LiveServerMessage
  | Closed
  | Errored
  | AudioProcess "number list"
  | SourceEnded nat
  | Retry "js_error + MediaStream"
  | Unmount

fun fire :: "UploadedFile list \<Rightarrow> event \<Rightarrow> LiveProfessor \<Rightarrow> LiveProfessor" where
  "fire files Opened s = onopen files s"
| "fire files (Message currentTime msg) s = snd (onmessage currentTime msg s)"
| "fire files Closed s = onclose s"
| "fire files Errored s = onerror s"
| "fire files (AudioProcess inputData) s = onaudioprocess inputData s"
| "fire files (SourceEnded n) s = ended n s"
| "fire files (Retry getUserMedia) s = startSession getUserMedia (cleanup s)"
| "fire files Unmount s = cleanup s"

fun run :: "UploadedFile list \<Rightarrow> event list \<Rightarrow> LiveProfessor \<Rightarrow> LiveProfessor" where
  "run files [] s = s"
| "run files (e # es) s = run files es (fire files e s)"

text \<open>Mounting runs \<open>startSession\<close> on the initial state.\<close>

definition mount :: "js_error + MediaStream \<Rightarrow> LiveProfessor" where
  "mount getUserMedia = startSession getUserMedia initial"

subsection \<open>Reading the trace\<close>

text \<open>A message that carries the audio chunk \<open>b\<close> and no interruption flag.\<close>

definition audioChunk :: "string \<Rightarrow> LiveServerMessage" where
  "audioChunk b = \<lparr> base64Audio = Some b, interrupted = False \<rparr>"

text \<open>A message that carries the interruption flag only.\<close>

definition interruption :: LiveServerMessage where
  "interruption = \<lparr> base64Audio = None, interrupted = True \<rparr>"

fun startTimes :: "effect list \<Rightarrow> number list" where
  "startTimes [] = []"
| "startTimes (SourceStart n t # es) = t # startTimes es"
| "startTimes (e # es) = startTimes es"

fun stoppedNodes :: "effect list \<Rightarrow> nat list" where
  "stoppedNodes [] = []"
| "stoppedNodes (SourceStop n # es) = n # stoppedNodes es"
| "stoppedNodes (e # es) = stoppedNodes es"

fun interrupting :: "event \<Rightarrow> bool" where
  "interrupting (Message currentTime msg) = interrupted msg"
| "interrupting e = False"

section \<open>Image generation: \<open>generateLectureImage\<close> (\<open>src/services/gemini.ts\<close>)\<close>











section \<open>Sample states\<close>

text \<open>
  A mounted session that has been opened and is playing two one-frame buffers, both
  received at device time 3.
\<close>

definition playing :: LiveProfessor where
  "playing = run [] [Opened, Message 3 (audioChunk ''AAA=''), Message 3 (audioChunk ''AAA='')]
               (mount (Inr (MediaStream [0])))"

text \<open>
  A session that scheduled one one-frame buffer at device time 8, then received the
  error callback, and was started again with "Retry Connection" and opened. Its output
  context is a new one, whose clock starts again at 0.
\<close>

definition retried :: LiveProfessor where
  "retried = run [] [Opened, Message 8 (audioChunk ''AAA=''), Errored,
                     Retry (Inr (MediaStream [0])), Opened]
               (mount (Inr (MediaStream [0])))"

section \<open>Evaluation rules and basic facts\<close>

lemmas b64_eval = atob_def ascii_whitespace_def strip_padding_def b64_value_def b64_alphabet_def
  b64_char_def btoa_def

lemmas codec_eval = createBlob_def ToInt16_def trunc_def decodeAudioData_def
  Int16Array_of_Uint8_def createBuffer_def

lemmas session_eval = mount_def startSession_def initial_def onopen_def onmessage_def
  handleAudioOutput_def handleInterruption_def audioChunk_def interruption_def ended_def
  cleanup_def onclose_def onerror_def onaudioprocess_def duration_def Let_def

lemma decode_empty: "decodeAudioData [] = Inl NotSupportedError"
  by (simp add: decodeAudioData_def b64_eval Int16Array_of_Uint8_def createBuffer_def)

lemma decode_nonempty: "decodeAudioData b = Inr B \<Longrightarrow> b \<noteq> []"
  using decode_empty by auto

lemma duration_nonneg: "0 \<le> duration B"
  by (simp add: duration_def)

lemma decode_one_frame:
  "decodeAudioData ''AAA='' = Inr \<lparr> numberOfChannels = 1, sampleRate = 24000, channelData = [0] \<rparr>"
  by (simp add: codec_eval b64_eval)

lemma startTimes_append: "startTimes (xs @ ys) = startTimes xs @ startTimes ys"
  by (induction xs rule: startTimes.induct) simp_all

lemma stoppedNodes_append: "stoppedNodes (xs @ ys) = stoppedNodes xs @ stoppedNodes ys"
  by (induction xs rule: stoppedNodes.induct) simp_all

lemma stoppedNodes_stops: "stoppedNodes (map (\<lambda>x. SourceStop (node x)) xs) = map node xs"
  by (induction xs) simp_all

lemma stoppedNodes_tracks: "stoppedNodes (map TrackStop ts) = []"
  by (induction ts) simp_all

text \<open>What \<open>onmessage\<close> does with a decodable chunk while the output context exists.\<close>

lemma enqueue:
  assumes "audioContextRef s \<noteq> None" "decodeAudioData b = Inr B"
  shows "onmessage t (audioChunk b) s = (None, s\<lparr> status := speaking,
            nextStartTimeRef := max (nextStartTimeRef s) t + duration B,
            created := Suc (created s),
            effects := effects s @ [SourceStart (created s) (max (nextStartTimeRef s) t)],
            sourcesRef := sourcesRef s @ [\<lparr> node = created s, buffer = B \<rparr>] \<rparr>)"
  using assms decode_nonempty [OF assms(2)]
  by (simp add: onmessage_def handleAudioOutput_def handleInterruption_def audioChunk_def Let_def)

lemma fire_chunk:
  assumes "audioContextRef s \<noteq> None" "decodeAudioData b = Inr B"
  shows "audioContextRef (fire files (Message t (audioChunk b)) s) = audioContextRef s"
    and "nextStartTimeRef (fire files (Message t (audioChunk b)) s)
         = max (nextStartTimeRef s) t + duration B"
    and "created (fire files (Message t (audioChunk b)) s) = Suc (created s)"
    and "effects (fire files (Message t (audioChunk b)) s)
         = effects s @ [SourceStart (created s) (max (nextStartTimeRef s) t)]"
    and "sourcesRef (fire files (Message t (audioChunk b)) s)
         = sourcesRef s @ [\<lparr> node = created s, buffer = B \<rparr>]"
    and "status (fire files (Message t (audioChunk b)) s) = speaking"
    and "cleanups (fire files (Message t (audioChunk b)) s) = cleanups s"
  by (simp_all add: enqueue [OF assms])

text \<open>What \<open>onmessage\<close> does with a message that only carries the interruption flag.\<close>

lemma interrupt_only:
  "onmessage t interruption s =
     (None, s\<lparr> effects := effects s @ map (\<lambda>x. SourceStop (node x)) (sourcesRef s),
               sourcesRef := [], nextStartTimeRef := 0, status := listening \<rparr>)"
  by (simp add: onmessage_def handleAudioOutput_def handleInterruption_def interruption_def Let_def)

text \<open>The fields of the state after \<open>cleanup\<close>.\<close>

lemma cleanup_fields:
  "isActive (cleanup s) = False"
  "processorRef (cleanup s) = (if inputContextRef s = None then processorRef s else None)"
  "streamRef (cleanup s) = None" "inputContextRef (cleanup s) = None"
  "sourcesRef (cleanup s) = []" "audioContextRef (cleanup s) = None"
  "sessionPromiseRef (cleanup s) = None" "status (cleanup s) = status s"
  "nextStartTimeRef (cleanup s) = nextStartTimeRef s" "cleanups (cleanup s) = Suc (cleanups s)"
  "errorMessage (cleanup s) = errorMessage s" "created (cleanup s) = created s"
  by (simp_all add: cleanup_def Let_def split: option.splits)

lemma cleanup_released:
  assumes "streamRef s = None" "inputContextRef s = None" "sourcesRef s = []"
          "audioContextRef s = None" "sessionPromiseRef s = None" "isActive s = False"
  shows "cleanup s = s\<lparr> cleanups := Suc (cleanups s) \<rparr>"
  using assms by (simp add: cleanup_def Let_def)

lemma cleanup_stops:
  "stoppedNodes (effects (cleanup s)) = stoppedNodes (effects s) @ map node (sourcesRef s)"
  by (simp add: cleanup_def Let_def stoppedNodes_append stoppedNodes_stops stoppedNodes_tracks
           split: option.splits)

lemma playing_eval:
  "playing = \<lparr> isActive = True, status = speaking, errorMessage = [],
       sessionPromiseRef = Some SessionPromise, audioContextRef = Some (AudioContext 24000),
       inputContextRef = Some (AudioContext 16000), streamRef = Some (MediaStream [0]),
       processorRef = Some (ScriptProcessorNode 4096), nextStartTimeRef = 3 + 1 / 12000,
       sourcesRef = [\<lparr> node = 0, buffer = \<lparr> numberOfChannels = 1, sampleRate = 24000,
                                               channelData = [0] \<rparr> \<rparr>,
                     \<lparr> node = 1, buffer = \<lparr> numberOfChannels = 1, sampleRate = 24000,
                                               channelData = [0] \<rparr> \<rparr>],
       created = 2,
       effects = [LiveConnect, CaptureConnect, SendRealtimeInput ready_signal,
                  SourceStart 0 3, SourceStart 1 (3 + 1 / 24000)],
       cleanups = 0 \<rparr>"
  by (simp add: playing_def session_eval decode_one_frame)

section \<open>Properties of the PCM codec\<close>

text \<open>\<open>atob\<close> inverts \<open>btoa\<close> on every byte sequence.\<close>

lemma btoa_codes_sextets: "btoa_codes ns = map b64_char (sextets ns) @ padding ns"
  by (induction ns rule: sextets.induct) simp_all



lemma q_hi: "(x * 16 + y) div 16 = x" "(x * 16 + y) mod 16 = y" if "y < 16" for x y :: nat
  using that by simp_all

lemma q_lo: "(x * 4 + y) div 4 = x" "(x * 4 + y) mod 4 = y" if "y < 4" for x y :: nat
  using that by simp_all

lemma byte_parts: "b div 16 < 16" "b div 64 < 4" "b div 4 < 64" if "b < 256" for b :: nat
  using that by (simp_all add: less_mult_imp_div_less)

lemma sextets_bound: "list_all (\<lambda>n. n < 256) ns \<Longrightarrow> list_all (\<lambda>v. v < 64) (sextets ns)"
proof (induction ns rule: sextets.induct)
  case (1 a b c rest)
  have "a mod 4 < 4" "b mod 16 < 16" "b div 16 < 16" "c div 64 < 4" "a div 4 < 64"
    using 1 by (simp_all add: byte_parts)
  then have "a mod 4 * 16 + b div 16 < 64" "b mod 16 * 4 + c div 64 < 64" by linarith+
  with 1 \<open>a div 4 < 64\<close> show ?case by simp
next
  case (2 a b)
  have "a mod 4 < 4" "b mod 16 < 16" "b div 16 < 16" "a div 4 < 64"
    using 2 by (simp_all add: byte_parts)
  then have "a mod 4 * 16 + b div 16 < 64" "b mod 16 * 4 < 64" by linarith+
  with \<open>a div 4 < 64\<close> show ?case by simp
next
  case (3 a)
  have "a mod 4 < 4" "a div 4 < 64" using 3 by (simp_all add: byte_parts)
  then have "a mod 4 * 16 < 64" by linarith
  with \<open>a div 4 < 64\<close> show ?case by simp
next
  case 4
  show ?case by simp
qed

lemma atob_groups_sextets: "list_all (\<lambda>n. n < 256) ns \<Longrightarrow> atob_groups (sextets ns) = ns"
proof (induction ns rule: sextets.induct)
  case (1 a b c rest)
  have b: "b div 16 < 16" and c: "c div 64 < 4" using 1 by (simp_all add: byte_parts)
  have "a div 4 * 4 + (a mod 4 * 16 + b div 16) div 16 = a" by (simp add: q_hi [OF b])
  moreover have "(a mod 4 * 16 + b div 16) mod 16 * 16 + (b mod 16 * 4 + c div 64) div 4 = b"
    using b c by (simp add: q_hi [OF b] q_lo [OF c])
  moreover have "(b mod 16 * 4 + c div 64) mod 4 * 64 + c mod 64 = c"
    using c by (simp add: q_lo [OF c])
  ultimately show ?case using 1 by simp
next
  case (2 a b)
  have b: "b div 16 < 16" using 2 by (simp_all add: byte_parts)
  have "a div 4 * 4 + (a mod 4 * 16 + b div 16) div 16 = a" by (simp add: q_hi [OF b])
  moreover have "(a mod 4 * 16 + b div 16) mod 16 * 16 + (b mod 16 * 4) div 4 = b"
    using b by (simp add: q_hi [OF b])
  ultimately show ?case by simp
next
  case (3 a)
  show ?case by simp
next
  case 4
  show ?case by simp
qed


lemma sextets_length: "length (sextets ns) mod 4 \<noteq> 1"
  by (induction ns rule: sextets.induct) simp_all

lemma padding_cases: "padding ns = [] \<or> padding ns = ''='' \<or> padding ns = ''==''"
  by (induction ns rule: padding.induct) simp_all

lemma btoa_codes_length: "length (btoa_codes ns) mod 4 = 0"
  by (induction ns rule: btoa_codes.induct) simp_all

lemma alphabet_table:
  "list_all (\<lambda>n. b64_value (b64_char n) = Some n \<and> b64_char n \<noteq> CHR ''=''
                  \<and> \<not> ascii_whitespace (b64_char n)) [0..<64]"
  by code_simp

lemma alphabet:
  assumes "n < 64"
  shows "b64_value (b64_char n) = Some n" "b64_char n \<noteq> CHR ''=''" "\<not> ascii_whitespace (b64_char n)"
  using alphabet_table assms by (simp_all add: list_all_iff)

lemma strip_padding_plain:
  assumes "CHR ''='' \<notin> set xs" "length xs mod 4 = 0"
  shows "strip_padding xs = xs"
proof (cases xs rule: rev_cases)
  case Nil
  then show ?thesis by (simp add: strip_padding_def)
next
  case (snoc ys y)
  then have "y \<noteq> CHR ''=''" using assms(1) by auto
  then show ?thesis using snoc by (auto simp add: strip_padding_def)
qed

lemma strip_padding_one:
  assumes "CHR ''='' \<notin> set xs" "length (xs @ ''='') mod 4 = 0"
  shows "strip_padding (xs @ ''='') = xs"
proof (cases xs rule: rev_cases)
  case Nil
  then show ?thesis using assms(2) by simp
next
  case (snoc ys y)
  then have "y \<noteq> CHR ''=''" using assms(1) by auto
  then show ?thesis using snoc assms(2) by (simp add: strip_padding_def)
qed

lemma strip_padding_two:
  assumes "length (xs @ ''=='') mod 4 = 0"
  shows "strip_padding (xs @ ''=='') = xs"
  using assms by (simp add: strip_padding_def)

lemma strip_padding_btoa:
  assumes "CHR ''='' \<notin> set xs" "length (xs @ padding ns) mod 4 = 0"
  shows "strip_padding (xs @ padding ns) = xs"
  using padding_cases [of ns] assms
  by (auto simp add: strip_padding_plain strip_padding_one strip_padding_two
           simp del: append_assoc)

lemma option_all_values:
  "list_all (\<lambda>v. v < 64) vs \<Longrightarrow> option_all (map b64_value (map b64_char vs)) = Some vs"
  by (induction vs) (simp_all add: alphabet)

lemma chars_no_pad:
  "list_all (\<lambda>v. v < 64) vs \<Longrightarrow> CHR ''='' \<notin> set (map b64_char vs)"
proof (induction vs)
  case Nil
  show ?case by simp
next
  case (Cons v vs)
  then have "v < 64" "CHR ''='' \<notin> set (map b64_char vs)" by simp_all
  then show ?case using alphabet(2) [of v] by auto
qed

lemma chars_no_whitespace:
  "list_all (\<lambda>v. v < 64) vs \<Longrightarrow>
   filter (\<lambda>c. \<not> ascii_whitespace c) (map b64_char vs) = map b64_char vs"
proof (induction vs)
  case Nil
  show ?case by simp
next
  case (Cons v vs)
  then have "v < 64" "filter (\<lambda>c. \<not> ascii_whitespace c) (map b64_char vs) = map b64_char vs"
    by simp_all
  then show ?case using alphabet(3) [of v] by simp
qed

lemma padding_plain: "filter (\<lambda>c. \<not> ascii_whitespace c) (padding ns) = padding ns"
  using padding_cases [of ns] by (auto simp add: ascii_whitespace_def)

lemma atob_btoa: "atob (btoa bytes) = Inr bytes"
proof -
  define ns where "ns = map unat bytes"
  have bound: "list_all (\<lambda>n. n < 256) ns"
  proof -
    have "unat b < 256" for b :: uint8 using unsigned_less [of b, where ?'a = nat] by simp
    then show ?thesis unfolding ns_def list_all_iff by simp
  qed
  have six: "list_all (\<lambda>v. v < 64) (sextets ns)" using bound by (rule sextets_bound)
  have len: "length (map b64_char (sextets ns) @ padding ns) mod 4 = 0"
    using btoa_codes_length [of ns] by (simp add: btoa_codes_sextets)
  have f: "filter (\<lambda>c. \<not> ascii_whitespace c) (btoa bytes) = map b64_char (sextets ns) @ padding ns"
    by (simp add: btoa_def ns_def [symmetric] btoa_codes_sextets chars_no_whitespace [OF six] padding_plain)
  have sp: "strip_padding (map b64_char (sextets ns) @ padding ns) = map b64_char (sextets ns)"
    using chars_no_pad [OF six] len by (rule strip_padding_btoa)
  have l1: "length (map b64_char (sextets ns)) mod 4 \<noteq> 1" using sextets_length [of ns] by simp
  have again: "map word_of_nat ns = bytes" by (simp add: ns_def comp_def)
  show ?thesis
    using l1
    by (simp add: atob_def f sp option_all_values [OF six] atob_groups_sextets [OF bound] again
             del: map_map)
qed

text \<open>The two byte views of a 16-bit array are inverse to each other.\<close>

lemma int16_bytes:
  "ucast (ucast w :: uint8) OR push_bit 8 (ucast (ucast (drop_bit 8 w) :: uint8)) = (w :: int16)"
  by (rule bit_word_eqI) (auto simp add: bit_simps)

lemma Int16_pairs_bytes: "Int16_pairs (Uint8Array_of_Int16 ws) = ws"
  by (induction ws) (simp_all add: int16_bytes)

lemma bytes_length: "length (Uint8Array_of_Int16 ws) = 2 * length ws"
  by (induction ws) simp_all

text \<open>
  Encoding and decoding a non-empty sample sequence: each sample \<open>x\<close> comes back as the
  16-bit value of \<open>x * 32768\<close> divided by \<open>32768\<close>. The empty sequence encodes to the
  empty string, for which \<open>createBuffer\<close> raises.
\<close>

lemma round_trip:
  assumes "samples \<noteq> []"
  shows "decodeAudioData (data (createBlob samples))
         = Inr \<lparr> numberOfChannels = 1, sampleRate = 24000,
                  channelData = map (\<lambda>x. of_int (sint (ToInt16 (x * 32768))) / 32768) samples \<rparr>"
  using assms
  by (simp add: createBlob_def decodeAudioData_def atob_btoa Int16Array_of_Uint8_def bytes_length
        Int16_pairs_bytes createBuffer_def comp_def)

lemma trunc_near: "\<bar>of_int (trunc y) - y\<bar> < 1"
  unfolding trunc_def by (auto; linarith)

lemma trunc_range:
  assumes "- 32768 \<le> y" "y < 32768"
  shows "- 32768 \<le> trunc y" "trunc y < 32768"
  using assms unfolding trunc_def by (auto; linarith)+

lemma scale_error:
  fixes k :: int and x :: rat
  assumes "\<bar>of_int k - x * 32768\<bar> < 1"
  shows "\<bar>of_int k / 32768 - x\<bar> < 1 / 32768"
proof -
  have e: "of_int k / 32768 - x = (of_int k - x * 32768) / 32768"
    by (simp add: diff_divide_distrib)
  show ?thesis unfolding e using assms by simp
qed

lemma quantization_error:
  assumes "- 1 \<le> x" "x < 1"
  shows "\<bar>of_int (sint (ToInt16 (x * 32768))) / 32768 - x\<bar> < 1 / 32768"
proof -
  define y where "y = x * 32768"
  have r: "- 32768 \<le> y" "y < 32768" using assms by (simp_all add: y_def)
  have "sint (ToInt16 y) = trunc y"
    unfolding ToInt16_def using trunc_range [OF r]
    by (simp add: signed_of_int signed_take_bit_int_eq_self)
  moreover have "\<bar>of_int (trunc y) - y\<bar> < 1" by (rule trunc_near)
  ultimately have "\<bar>of_int (sint (ToInt16 (x * 32768))) - x * 32768\<bar> < 1" by (simp add: y_def)
  then show ?thesis by (rule scale_error)
qed

text \<open>
  Below full scale the codec is exact up to quantization: for a non-empty sequence with
  all samples in \<open>[-1, 1)\<close> the decoded sequence has the same length and every sample
  is less than \<open>1/32768\<close> away from the original.
\<close>

lemma round_trip_below_full_scale:
  assumes "samples \<noteq> []" and "list_all (\<lambda>x. - 1 \<le> x \<and> x < 1) samples"
  shows "\<exists>buf. decodeAudioData (data (createBlob samples)) = Inr buf
           \<and> length (channelData buf) = length samples
           \<and> list_all (\<lambda>(y, x). \<bar>y - x\<bar> < 1 / 32768) (zip (channelData buf) samples)"
proof -
  let ?q = "\<lambda>x :: number. of_int (sint (ToInt16 (x * 32768))) / 32768 :: number"
  have "list_all (\<lambda>(y, x). \<bar>y - x\<bar> < 1 / 32768) (zip (map ?q samples) samples)"
    using assms(2)
  proof (induction samples)
    case Nil
    show ?case by simp
  next
    case (Cons x xs)
    then have "- 1 \<le> x" "x < 1" by simp_all
    then have "\<bar>?q x - x\<bar> < 1 / 32768" by (rule quantization_error)
    with Cons show ?case by simp
  qed
  then show ?thesis using round_trip [OF assms(1)] by simp
qed


text \<open>
  Claim C1 (PCM round trip). The claim: for every sample sequence with values in
  \<open>[-1, 1]\<close>, decoding the encoded sequence gives samples that differ from the
  original by at most \<open>1/32768\<close> each.

  The code at the sample \<open>1.0\<close>: \<open>createBlob\<close> scales it to \<open>32768\<close>, which the
  \<open>Int16Array\<close> store wraps to \<open>-32768\<close> (bytes \<open>00 80\<close>, base64 \<open>AIA=\<close>);
  \<open>decodeAudioData\<close> returns the sample \<open>-1\<close>. The distance to the original is \<open>2\<close>,
  far more than one quantization step.
\<close>

theorem createBlob_full_scale_wraps:
  "createBlob [1] = \<lparr> data = ''AIA='', mimeType = ''audio/pcm;rate=16000'' \<rparr>
   \<and> decodeAudioData (data (createBlob [1]))
       = Inr \<lparr> numberOfChannels = 1, sampleRate = 24000, channelData = [- 1] \<rparr>
   \<and> \<bar>(- 1) - (1 :: number)\<bar> > 1 / 32768"
  by (simp add: codec_eval b64_eval)

text \<open>
  Claim C4 (malformed chunk). A chunk whose base64 text decodes to an odd number of
  bytes makes \<open>decodeAudioData\<close> fail, and always with the same error: the \<open>RangeError\<close>
  that \<open>new Int16Array(bytes.buffer)\<close> raises for a byte length that is not a multiple
  of 2. This is the decode failure the specification names \<open>MalformedChunk\<close>; no
  buffer is returned and no other error is possible on such a chunk.
\<close>

theorem decodeAudioData_odd_length:
  assumes "atob base64 = Inr bytes" and "odd (length bytes)"
  shows "decodeAudioData base64 = Inl RangeError"
  using assms by (simp add: decodeAudioData_def Int16Array_of_Uint8_def odd_iff_mod_2_eq_one)

theorem decodeAudioData_odd_length_witness:
  "atob ''AA=='' = Inr [0] \<and> odd (length [0 :: uint8]) \<and> decodeAudioData ''AA=='' = Inl RangeError"
proof -
  have a: "atob ''AA=='' = Inr [0]" by (simp add: b64_eval)
  have b: "odd (length [0 :: uint8])" by simp
  from decodeAudioData_odd_length [OF a b] a b show ?thesis by simp
qed

section \<open>Properties of playback scheduling\<close>

text \<open>
  A chunk that arrives after the previous buffer has ended is started at its arrival
  time: \<open>Math.max(nextStartTimeRef.current, ctx.currentTime)\<close> moves the cursor to the
  device time. Three one-frame buffers (\<open>1/24000\<close> s each) that arrive at device times
  \<open>0\<close>, \<open>5\<close> and \<open>10\<close> start at \<open>0\<close>, \<open>5\<close> and \<open>10\<close>.
\<close>

lemma late_chunk_leaves_gap:
  "sourcesRef (onopen [] (mount (Inr (MediaStream [0])))) = []
   \<and> nextStartTimeRef (onopen [] (mount (Inr (MediaStream [0])))) = 0
   \<and> decodeAudioData ''AAA='' = Inr \<lparr> numberOfChannels = 1, sampleRate = 24000, channelData = [0] \<rparr>
   \<and> duration \<lparr> numberOfChannels = 1, sampleRate = 24000, channelData = [0] \<rparr> = 1 / 24000
   \<and> startTimes (effects (run [] [Message 0 (audioChunk ''AAA=''), Message 5 (audioChunk ''AAA=''),
                                   Message 10 (audioChunk ''AAA='')]
                              (onopen [] (mount (Inr (MediaStream [0]))))))
       = [0, 5, 10]
   \<and> [0, 5, 10] \<noteq> [0, 0 + 1 / 24000, 0 + 1 / 24000 + 1 / (24000 :: number)]"
  by (simp add: session_eval decode_one_frame)

text \<open>
  While the cursor is not ahead of the device clock, three decodable chunks handled at
  device times \<open>t0\<close>, \<open>t2\<close>, \<open>t3\<close> are started at \<open>t0\<close>, \<open>t0 + d1\<close> and
  \<open>t0 + d1 + d2\<close>, in this order, provided the second is handled no later than
  \<open>t0 + d1\<close> and the third no later than \<open>t0 + d1 + d2\<close>.
\<close>

lemma gapless_when_delivery_keeps_pace:
  assumes ctx: "audioContextRef s \<noteq> None"
      and idle: "sourcesRef s = []" "nextStartTimeRef s \<le> t0"
      and dec: "decodeAudioData b1 = Inr B1" "decodeAudioData b2 = Inr B2"
               "decodeAudioData b3 = Inr B3"
      and pace: "t2 \<le> t0 + duration B1" "t3 \<le> t0 + duration B1 + duration B2"
  shows "effects (run files [Message t0 (audioChunk b1), Message t2 (audioChunk b2),
                             Message t3 (audioChunk b3)] s)
         = effects s @ [SourceStart (created s) t0,
                        SourceStart (created s + 1) (t0 + duration B1),
                        SourceStart (created s + 2) (t0 + duration B1 + duration B2)]"
proof -
  define s1 where "s1 = fire files (Message t0 (audioChunk b1)) s"
  define s2 where "s2 = fire files (Message t2 (audioChunk b2)) s1"
  define s3 where "s3 = fire files (Message t3 (audioChunk b3)) s2"
  have m0: "max (nextStartTimeRef s) t0 = t0" using idle by simp
  have c1: "audioContextRef s1 \<noteq> None"
    unfolding s1_def using ctx fire_chunk(1) [OF ctx dec(1)] by simp
  have n1: "nextStartTimeRef s1 = t0 + duration B1"
    unfolding s1_def using fire_chunk(2) [OF ctx dec(1)] m0 by simp
  have k1: "created s1 = created s + 1"
    unfolding s1_def using fire_chunk(3) [OF ctx dec(1)] by simp
  have e1: "effects s1 = effects s @ [SourceStart (created s) t0]"
    unfolding s1_def using fire_chunk(4) [OF ctx dec(1)] m0 by simp
  have m1: "max (nextStartTimeRef s1) t2 = t0 + duration B1" using n1 pace(1) by simp
  have c2: "audioContextRef s2 \<noteq> None"
    unfolding s2_def using c1 fire_chunk(1) [OF c1 dec(2)] by simp
  have n2: "nextStartTimeRef s2 = t0 + duration B1 + duration B2"
    unfolding s2_def using fire_chunk(2) [OF c1 dec(2)] m1 by simp
  have k2: "created s2 = created s + 2"
    unfolding s2_def using fire_chunk(3) [OF c1 dec(2)] k1 by simp
  have e2: "effects s2 = effects s @ [SourceStart (created s) t0,
                                      SourceStart (created s + 1) (t0 + duration B1)]"
    unfolding s2_def using fire_chunk(4) [OF c1 dec(2)] m1 e1 k1 by simp
  have m2: "max (nextStartTimeRef s2) t3 = t0 + duration B1 + duration B2"
    using n2 pace(2) by simp
  have e3: "effects s3 = effects s @ [SourceStart (created s) t0,
                                      SourceStart (created s + 1) (t0 + duration B1),
                                      SourceStart (created s + 2) (t0 + duration B1 + duration B2)]"
    unfolding s3_def using fire_chunk(4) [OF c2 dec(3)] m2 e2 k2 by simp
  have "run files [Message t0 (audioChunk b1), Message t2 (audioChunk b2),
                   Message t3 (audioChunk b3)] s = s3"
    unfolding s3_def s2_def s1_def by simp
  with e3 show ?thesis by simp
qed

lemma gapless_when_delivery_keeps_pace_example:
  "audioContextRef (onopen [] (mount (Inr (MediaStream [0])))) \<noteq> None
   \<and> sourcesRef (onopen [] (mount (Inr (MediaStream [0])))) = []
   \<and> nextStartTimeRef (onopen [] (mount (Inr (MediaStream [0])))) \<le> 7
   \<and> decodeAudioData ''AAA='' = Inr \<lparr> numberOfChannels = 1, sampleRate = 24000, channelData = [0] \<rparr>
   \<and> effects (run [] [Message 7 (audioChunk ''AAA=''), Message 7 (audioChunk ''AAA=''),
                       Message (7 + 1 / 24000) (audioChunk ''AAA='')]
                  (onopen [] (mount (Inr (MediaStream [0])))))
       = [LiveConnect, CaptureConnect, SendRealtimeInput ready_signal,
          SourceStart 0 7, SourceStart 1 (7 + 1 / 24000), SourceStart 2 (7 + 1 / 24000 + 1 / 24000)]"
proof -
  let ?s = "onopen [] (mount (Inr (MediaStream [0])))"
  let ?B = "\<lparr> numberOfChannels = 1, sampleRate = 24000, channelData = [0::number] \<rparr>"
  have ctx: "audioContextRef ?s \<noteq> None" by (simp add: session_eval)
  have idle: "sourcesRef ?s = []" "nextStartTimeRef ?s \<le> 7" by (simp_all add: session_eval)
  have pace: "(7::number) \<le> 7 + duration ?B" "7 + 1 / 24000 \<le> 7 + duration ?B + duration ?B"
    by (simp_all add: duration_def)
  have st: "created ?s = 0" "effects ?s = [LiveConnect, CaptureConnect, SendRealtimeInput ready_signal]"
    by (simp_all add: session_eval)
  from gapless_when_delivery_keeps_pace
         [OF ctx idle decode_one_frame decode_one_frame decode_one_frame pace, of "[]"]
  show ?thesis using ctx idle st by (simp add: decode_one_frame duration_def)
qed

text \<open>
  Neither \<open>cleanup\<close> nor \<open>startSession\<close> writes the cursor: a retry keeps the value the
  torn-down session left, with an empty active set and a new output context. The
  interruption block, in contrast, writes \<open>0\<close>.
\<close>

lemma retry_keeps_cursor:
  "nextStartTimeRef (fire files (Retry getUserMedia) s) = nextStartTimeRef s
   \<and> sourcesRef (fire files (Retry getUserMedia) s) = []
   \<and> audioContextRef (fire files (Retry getUserMedia) s) = Some (AudioContext 24000)"
  by (simp add: startSession_def Let_def cleanup_fields split: sum.splits)

lemma retried_eval:
  "retried = \<lparr> isActive = True, status = listening, errorMessage = [],
       sessionPromiseRef = Some SessionPromise, audioContextRef = Some (AudioContext 24000),
       inputContextRef = Some (AudioContext 16000), streamRef = Some (MediaStream [0]),
       processorRef = Some (ScriptProcessorNode 4096), nextStartTimeRef = 8 + 1 / 24000,
       sourcesRef = [], created = 1,
       effects = [LiveConnect, CaptureConnect, SendRealtimeInput ready_signal, SourceStart 0 8,
                  ProcessorDisconnect, TrackStop 0, ContextClose (AudioContext 16000),
                  SourceStop 0, ContextClose (AudioContext 24000),
                  LiveConnect, CaptureConnect, SendRealtimeInput ready_signal],
       cleanups = 2 \<rparr>"
  by (simp add: retried_def session_eval decode_one_frame)

text \<open>
  Claim C2 (gapless scheduling). The claim: three buffers of durations \<open>d1\<close>, \<open>d2\<close>,
  \<open>d3\<close> enqueued on an idle scheduler start at \<open>t0\<close>, \<open>t0 + d1\<close>, \<open>t0 + d1 + d2\<close>,
  where \<open>t0\<close> is the device time of the first enqueue.

  The code in the state \<open>retried\<close>: the active set is empty, the output context is
  open and its clock is new, and the cursor is still \<open>8 + 1/24000\<close>, the end of the
  buffer of the session before the retry. Three one-frame chunks arrive at device
  times \<open>1\<close>, \<open>1\<close> and \<open>1 + 1/24000\<close>, each no later than the end of the one before.
  They are started at \<open>8 + 1/24000\<close>, \<open>8 + 2/24000\<close> and \<open>8 + 3/24000\<close>, not at
  \<open>1\<close>, \<open>1 + 1/24000\<close> and \<open>1 + 2/24000\<close>.
\<close>

theorem stale_cursor_after_retry:
  "sourcesRef retried = []
   \<and> audioContextRef retried = Some (AudioContext 24000)
   \<and> status retried = listening
   \<and> nextStartTimeRef retried = 8 + 1 / 24000
   \<and> decodeAudioData ''AAA='' = Inr \<lparr> numberOfChannels = 1, sampleRate = 24000, channelData = [0] \<rparr>
   \<and> duration \<lparr> numberOfChannels = 1, sampleRate = 24000, channelData = [0] \<rparr> = 1 / 24000
   \<and> startTimes (effects (run [] [Message 1 (audioChunk ''AAA=''), Message 1 (audioChunk ''AAA=''),
                                   Message (1 + 1 / 24000) (audioChunk ''AAA='')] retried))
       = startTimes (effects retried)
         @ [8 + 1 / 24000, 8 + 1 / 24000 + 1 / 24000, 8 + 1 / 24000 + 1 / 24000 + 1 / 24000]
   \<and> [8 + 1 / 24000, 8 + 1 / 24000 + 1 / 24000, 8 + 1 / 24000 + 1 / 24000 + 1 / 24000]
       \<noteq> [1, 1 + 1 / 24000, 1 + 1 / 24000 + 1 / (24000 :: number)]"
  by (simp add: retried_eval session_eval decode_one_frame)

text \<open>Every message with the interruption flag whose audio part did not raise.\<close>

lemma interrupted_message:
  assumes "interrupted msg" "fst (onmessage t msg s) = None"
  shows "sourcesRef (snd (onmessage t msg s)) = []"
    and "nextStartTimeRef (snd (onmessage t msg s)) = 0"
    and "status (snd (onmessage t msg s)) = listening"
  using assms
  by (cases "handleAudioOutput t msg s";
      auto simp add: onmessage_def handleInterruption_def Let_def split: option.splits)+

text \<open>
  Claim C3 (interruption). In every state, a message that carries the interruption flag
  stops every source of the active set, in insertion order, empties the set, writes
  \<open>0\<close> to the cursor and sets the status to \<open>listening\<close>. The next decodable chunk,
  handled at a device time \<open>t' \<ge> 0\<close>, is started at \<open>t'\<close>, whatever the cursor was
  before the interruption. The same reset happens for every message with the flag whose
  audio part, if any, did not raise.
\<close>

theorem interrupt_stops_and_reanchors:
  assumes ctx: "audioContextRef s \<noteq> None" and dec: "decodeAudioData b = Inr B" and t: "0 \<le> t'"
  shows "fst (onmessage t interruption s) = None
     \<and> stoppedNodes (effects (fire files (Message t interruption) s))
         = stoppedNodes (effects s) @ map node (sourcesRef s)
     \<and> sourcesRef (fire files (Message t interruption) s) = []
     \<and> nextStartTimeRef (fire files (Message t interruption) s) = 0
     \<and> status (fire files (Message t interruption) s) = listening
     \<and> effects (fire files (Message t' (audioChunk b)) (fire files (Message t interruption) s))
         = effects (fire files (Message t interruption) s) @ [SourceStart (created s) t']
     \<and> (interrupted msg \<and> fst (onmessage t msg s) = None \<longrightarrow>
          sourcesRef (fire files (Message t msg) s) = []
          \<and> nextStartTimeRef (fire files (Message t msg) s) = 0
          \<and> status (fire files (Message t msg) s) = listening)"
proof -
  define s' where "s' = fire files (Message t interruption) s"
  have f: "s' = s\<lparr> effects := effects s @ map (\<lambda>x. SourceStop (node x)) (sourcesRef s),
               sourcesRef := [], nextStartTimeRef := 0, status := listening \<rparr>"
    unfolding s'_def by (simp add: interrupt_only)
  have c: "audioContextRef s' \<noteq> None" using ctx f by simp
  have m: "max (nextStartTimeRef s') t' = t'" using t f by simp
  have k: "created s' = created s" using f by simp
  have e: "effects (fire files (Message t' (audioChunk b)) s') = effects s' @ [SourceStart (created s) t']"
    using fire_chunk(4) [OF c dec, of files t'] m k by simp
  have "stoppedNodes (effects s') = stoppedNodes (effects s) @ map node (sourcesRef s)"
    using f by (simp add: stoppedNodes_append stoppedNodes_stops)
  moreover have "sourcesRef s' = []" "nextStartTimeRef s' = 0" "status s' = listening"
    using f by simp_all
  moreover have "fst (onmessage t interruption s) = None" by (simp add: interrupt_only)
  moreover have "interrupted msg \<and> fst (onmessage t msg s) = None \<longrightarrow>
          sourcesRef (fire files (Message t msg) s) = []
          \<and> nextStartTimeRef (fire files (Message t msg) s) = 0
          \<and> status (fire files (Message t msg) s) = listening"
    using interrupted_message [of msg t s] by simp
  ultimately show ?thesis using e unfolding s'_def by simp
qed

theorem interrupt_stops_and_reanchors_witness:
  "audioContextRef playing \<noteq> None
   \<and> decodeAudioData ''AAA='' = Inr \<lparr> numberOfChannels = 1, sampleRate = 24000, channelData = [0] \<rparr>
   \<and> (0 :: number) \<le> 9
   \<and> map node (sourcesRef playing) = [0, 1]
   \<and> nextStartTimeRef playing = 3 + 1 / 12000
   \<and> stoppedNodes (effects (fire [] (Message 4 interruption) playing)) = [0, 1]
   \<and> sourcesRef (fire [] (Message 4 interruption) playing) = []
   \<and> nextStartTimeRef (fire [] (Message 4 interruption) playing) = 0
   \<and> startTimes (effects (fire [] (Message 9 (audioChunk ''AAA=''))
                             (fire [] (Message 4 interruption) playing)))
       = [3, 3 + 1 / 24000, 9]
   \<and> interrupted interruption \<and> fst (onmessage 4 interruption playing) = None
   \<and> status (fire [] (Message 4 interruption) playing) = listening"
proof -
  have ctx: "audioContextRef playing \<noteq> None" by (simp add: playing_eval)
  have flag: "interrupted interruption" by (simp add: interruption_def)
  have t: "(0 :: number) \<le> 9" by simp
  have st: "map node (sourcesRef playing) = [0, 1]" "nextStartTimeRef playing = 3 + 1 / 12000"
    "stoppedNodes (effects playing) = []" "startTimes (effects playing) = [3, 3 + 1 / 24000]"
    by (simp_all add: playing_eval)
  have e: "startTimes (effects (fire [] (Message 4 interruption) playing)) = [3, 3 + 1 / 24000]"
    by (simp add: interrupt_only playing_eval)
  from interrupt_stops_and_reanchors [OF ctx decode_one_frame t, of 4 "[]" interruption]
  show ?thesis using ctx st e flag decode_one_frame by (simp add: startTimes_append)
qed

text \<open>The cursor under each block of \<open>onmessage\<close> and under each event.\<close>

lemma handleAudioOutput_cursor:
  "nextStartTimeRef s \<le> nextStartTimeRef (snd (handleAudioOutput t msg s))"
  using duration_nonneg
  by (auto simp add: handleAudioOutput_def Let_def max_def add_increasing2
           split: option.splits sum.splits)

lemma onmessage_cursor:
  "nextStartTimeRef s \<le> nextStartTimeRef (snd (onmessage t msg s))
   \<or> interrupted msg \<and> nextStartTimeRef (snd (onmessage t msg s)) = 0"
proof (cases "handleAudioOutput t msg s")
  case (Pair r s')
  have le: "nextStartTimeRef s \<le> nextStartTimeRef s'"
    using handleAudioOutput_cursor [of s t msg] Pair by simp
  show ?thesis
  proof (cases r)
    case None
    with Pair le show ?thesis by (simp add: onmessage_def handleInterruption_def Let_def)
  next
    case (Some e)
    with Pair le show ?thesis by (simp add: onmessage_def)
  qed
qed

lemma fire_cursor:
  "nextStartTimeRef s \<le> nextStartTimeRef (fire files e s)
   \<or> interrupting e \<and> nextStartTimeRef (fire files e s) = 0"
proof (cases e)
  case (Message t msg)
  then show ?thesis using onmessage_cursor [of s t msg] by simp
next
  case Opened
  then show ?thesis by (simp add: onopen_def Let_def)
next
  case Closed
  then show ?thesis by (simp add: onclose_def cleanup_fields)
next
  case Errored
  then show ?thesis by (simp add: onerror_def Let_def cleanup_fields)
next
  case (AudioProcess d)
  then show ?thesis by (simp add: onaudioprocess_def Let_def split: option.splits)
next
  case (SourceEnded n)
  then show ?thesis by (simp add: ended_def Let_def)
next
  case (Retry g)
  then show ?thesis by (simp add: startSession_def Let_def cleanup_fields split: sum.splits)
next
  case Unmount
  then show ?thesis by (simp add: cleanup_fields)
qed

lemma run_cursor_mono:
  "list_all (\<lambda>e. \<not> interrupting e) es \<Longrightarrow>
   nextStartTimeRef s \<le> nextStartTimeRef (run files es s)"
proof (induction es arbitrary: s)
  case Nil
  then show ?case by simp
next
  case (Cons e es)
  have "nextStartTimeRef s \<le> nextStartTimeRef (fire files e s)"
    using fire_cursor [of s files e] Cons.prems by simp
  also have "\<dots> \<le> nextStartTimeRef (run files es (fire files e s))"
    using Cons.IH Cons.prems by simp
  finally show ?case by simp
qed

lemma zero_offset:
  assumes "0 \<le> t" "t \<le> t'" "base64Audio msg = Some b" "b \<noteq> []" "audioContextRef s \<noteq> None"
  shows "handleAudioOutput t' msg (s\<lparr> nextStartTimeRef := 0 \<rparr>)
       = handleAudioOutput t' msg (s\<lparr> nextStartTimeRef := t \<rparr>)"
  using assms by (simp add: handleAudioOutput_def Let_def max_def split: option.splits sum.splits)

text \<open>
  Claim C8 (cursor invariant). Every event either leaves the cursor
  \<open>nextStartTimeRef\<close> where it was or moves it forward, or it is a message with the
  interruption flag and the cursor becomes \<open>0\<close>. Hence the cursor never decreases along
  a sequence of events without interruption. The value \<open>0\<close> written by an interruption
  at device time \<open>t \<ge> 0\<close> acts as the device time itself: a chunk enqueued at any later
  time \<open>t'\<close> is handled identically from cursor \<open>0\<close> and from cursor \<open>t\<close>.
\<close>

theorem cursor_monotone_except_interruption:
  "(nextStartTimeRef s \<le> nextStartTimeRef (fire files e s)
      \<or> interrupting e \<and> nextStartTimeRef (fire files e s) = 0)
   \<and> (list_all (\<lambda>e. \<not> interrupting e) es \<longrightarrow>
        nextStartTimeRef s \<le> nextStartTimeRef (run files es s))
   \<and> (interrupted msg \<and> fst (onmessage t msg s) = None \<longrightarrow>
        nextStartTimeRef (fire files (Message t msg) s) = 0)
   \<and> (0 \<le> t \<and> t \<le> t' \<and> base64Audio msg' = Some b \<and> b \<noteq> [] \<and> audioContextRef s \<noteq> None \<longrightarrow>
        handleAudioOutput t' msg' (s\<lparr> nextStartTimeRef := 0 \<rparr>)
        = handleAudioOutput t' msg' (s\<lparr> nextStartTimeRef := t \<rparr>))"
  using fire_cursor [of s files e] run_cursor_mono [of es s files]
        interrupted_message(2) [of msg t s] zero_offset [of t t' msg' b s]
  by simp

theorem cursor_monotone_except_interruption_witness:
  "list_all (\<lambda>e. \<not> interrupting e) [Message 5 (audioChunk ''AAA=''), SourceEnded 0, Errored]
   \<and> nextStartTimeRef playing
       \<le> nextStartTimeRef (run [] [Message 5 (audioChunk ''AAA=''), SourceEnded 0, Errored] playing)
   \<and> interrupted interruption \<and> fst (onmessage 4 interruption playing) = None
   \<and> nextStartTimeRef (fire [] (Message 4 interruption) playing) = 0
   \<and> (0 :: number) \<le> 4 \<and> (4 :: number) \<le> 9 \<and> audioContextRef playing \<noteq> None
   \<and> handleAudioOutput 9 (audioChunk ''AAA='') (playing\<lparr> nextStartTimeRef := 0 \<rparr>)
       = handleAudioOutput 9 (audioChunk ''AAA='') (playing\<lparr> nextStartTimeRef := 4 \<rparr>)"
proof -
  have h1: "list_all (\<lambda>e. \<not> interrupting e) [Message 5 (audioChunk ''AAA=''), SourceEnded 0, Errored]"
    by (simp add: audioChunk_def)
  have h2: "interrupted interruption" by (simp add: interruption_def)
  have h2': "fst (onmessage 4 interruption playing) = None" by (simp add: interrupt_only)
  have h3: "(0 :: number) \<le> 4" "(4 :: number) \<le> 9" "audioContextRef playing \<noteq> None"
    "base64Audio (audioChunk ''AAA='') = Some ''AAA=''" "''AAA='' \<noteq> []"
    by (simp_all add: playing_eval audioChunk_def)
  from cursor_monotone_except_interruption
         [of playing "[]" "Message 4 interruption"
             "[Message 5 (audioChunk ''AAA=''), SourceEnded 0, Errored]"
             interruption 4 9 "audioChunk ''AAA=''" "''AAA=''"]
  show ?thesis using h1 h2 h2' h3 by simp
qed

section \<open>Properties of the session life cycle\<close>

text \<open>The state after mounting with a granted microphone and the open callback.\<close>

lemma opened_fields:
  "status (fire files Opened (mount (Inr stream))) = listening"
  "audioContextRef (fire files Opened (mount (Inr stream))) \<noteq> None"
  "created (fire files Opened (mount (Inr stream))) = 0"
  "sourcesRef (fire files Opened (mount (Inr stream))) = []"
  "cleanups (fire files Opened (mount (Inr stream))) = 0"
  by (simp_all add: mount_def initial_def startSession_def onopen_def Let_def)

text \<open>
  Claim C5 (full scenario). After mounting with a granted microphone the status is
  \<open>connecting\<close>; the open callback makes it \<open>listening\<close>; a decodable audio chunk makes
  it \<open>speaking\<close>; a second chunk leaves it \<open>speaking\<close>; when the first source ends the
  status is still \<open>speaking\<close>, and when the second ends (the active set is empty) it is
  \<open>listening\<close> again; up to here \<open>cleanup\<close> has not run, and the unmounting caused by
  the user's close runs it exactly once.
\<close>

theorem session_scenario:
  assumes dec: "decodeAudioData b1 = Inr B1" "decodeAudioData b2 = Inr B2"
  shows "status (mount (Inr stream)) = connecting
     \<and> status (run files [Opened] (mount (Inr stream))) = listening
     \<and> status (run files [Opened, Message t1 (audioChunk b1)] (mount (Inr stream))) = speaking
     \<and> status (run files [Opened, Message t1 (audioChunk b1), Message t2 (audioChunk b2)]
                 (mount (Inr stream))) = speaking
     \<and> status (run files [Opened, Message t1 (audioChunk b1), Message t2 (audioChunk b2),
                            SourceEnded 0] (mount (Inr stream))) = speaking
     \<and> status (run files [Opened, Message t1 (audioChunk b1), Message t2 (audioChunk b2),
                            SourceEnded 0, SourceEnded 1] (mount (Inr stream))) = listening
     \<and> cleanups (run files [Opened, Message t1 (audioChunk b1), Message t2 (audioChunk b2),
                            SourceEnded 0, SourceEnded 1] (mount (Inr stream))) = 0
     \<and> cleanups (run files [Opened, Message t1 (audioChunk b1), Message t2 (audioChunk b2),
                            SourceEnded 0, SourceEnded 1, Unmount] (mount (Inr stream))) = 1
     \<and> sourcesRef (run files [Opened, Message t1 (audioChunk b1), Message t2 (audioChunk b2),
                            SourceEnded 0, SourceEnded 1, Unmount] (mount (Inr stream))) = []"
proof -
  define s1 where "s1 = fire files Opened (mount (Inr stream))"
  define s2 where "s2 = fire files (Message t1 (audioChunk b1)) s1"
  define s3 where "s3 = fire files (Message t2 (audioChunk b2)) s2"
  define s4 where "s4 = fire files (SourceEnded 0) s3"
  define s5 where "s5 = fire files (SourceEnded 1) s4"
  define s6 where "s6 = fire files Unmount s5"
  have a0: "status (mount (Inr stream)) = connecting"
    by (simp add: mount_def initial_def startSession_def Let_def)
  have a1: "status s1 = listening" "audioContextRef s1 \<noteq> None" "created s1 = 0"
           "sourcesRef s1 = []" "cleanups s1 = 0"
    unfolding s1_def by (rule opened_fields)+
  have a2: "status s2 = speaking" "audioContextRef s2 \<noteq> None" "created s2 = 1"
           "sourcesRef s2 = [\<lparr> node = 0, buffer = B1 \<rparr>]" "cleanups s2 = 0"
    unfolding s2_def using fire_chunk [OF a1(2) dec(1), of files t1] a1 by simp_all
  have a3: "status s3 = speaking"
           "sourcesRef s3 = [\<lparr> node = 0, buffer = B1 \<rparr>, \<lparr> node = 1, buffer = B2 \<rparr>]"
           "cleanups s3 = 0"
    unfolding s3_def using fire_chunk [OF a2(2) dec(2), of files t2] a2 by simp_all
  have a4: "status s4 = speaking" "sourcesRef s4 = [\<lparr> node = 1, buffer = B2 \<rparr>]" "cleanups s4 = 0"
    unfolding s4_def using a3 by (simp_all add: ended_def Let_def)
  have a5: "status s5 = listening" "sourcesRef s5 = []" "cleanups s5 = 0"
    unfolding s5_def using a4 by (simp_all add: ended_def Let_def)
  have a6: "cleanups s6 = 1" "sourcesRef s6 = []"
    unfolding s6_def using a5 by (simp_all add: cleanup_fields)
  show ?thesis
    using a0 a1(1) a2(1) a3(1) a4(1) a5(1) a5(3) a6
    unfolding s6_def s5_def s4_def s3_def s2_def s1_def by simp
qed

theorem session_scenario_witness:
  "decodeAudioData ''AAA='' = Inr \<lparr> numberOfChannels = 1, sampleRate = 24000, channelData = [0] \<rparr>
   \<and> status (run [] [Opened, Message 2 (audioChunk ''AAA=''), Message 2 (audioChunk ''AAA=''),
                      SourceEnded 0, SourceEnded 1] (mount (Inr (MediaStream [0])))) = listening
   \<and> cleanups (run [] [Opened, Message 2 (audioChunk ''AAA=''), Message 2 (audioChunk ''AAA=''),
                        SourceEnded 0, SourceEnded 1, Unmount] (mount (Inr (MediaStream [0])))) = 1"
  using session_scenario [OF decode_one_frame decode_one_frame, of "MediaStream [0]" "[]" 2 2]
        decode_one_frame
  by simp

text \<open>
  Claim C6 (error from any state). In every state, the error callback sets the status
  to \<open>error\<close> and runs \<open>cleanup\<close> once: every source of the active set is stopped, the
  set is empty afterwards, and the stream, both contexts and the session ref are
  released.
\<close>

theorem error_from_any_state:
  "status (fire files Errored s) = error
   \<and> stoppedNodes (effects (fire files Errored s))
       = stoppedNodes (effects s) @ map node (sourcesRef s)
   \<and> sourcesRef (fire files Errored s) = []
   \<and> cleanups (fire files Errored s) = Suc (cleanups s)
   \<and> streamRef (fire files Errored s) = None
   \<and> inputContextRef (fire files Errored s) = None
   \<and> audioContextRef (fire files Errored s) = None
   \<and> sessionPromiseRef (fire files Errored s) = None
   \<and> isActive (fire files Errored s) = False"
  by (simp add: onerror_def Let_def cleanup_fields cleanup_stops)

text \<open>
  Claim C7 (teardown idempotence). A second \<open>cleanup\<close> right after a first one changes
  nothing: no ref, no React state, and no call on an external object (the trace is the
  same). Only the count of invocations differs. \<open>cleanup\<close> has no statement that can
  raise; it is a total function of the state.
\<close>

theorem cleanup_idempotent:
  "cleanup (cleanup s) = (cleanup s)\<lparr> cleanups := Suc (cleanups (cleanup s)) \<rparr>"
  by (rule cleanup_released) (simp_all add: cleanup_fields)

text \<open>
  Claim C9 (startup ordering), as stated: whenever the controller leaves \<open>connecting\<close>
  for any other state, streams, session, capture pipeline and attachments are in place.
  That fails on the way to \<open>error\<close>: when \<open>getUserMedia\<close> is refused, \<open>startSession\<close>
  sets the status to \<open>error\<close> with no capture stream, no session, no capture pipeline
  and nothing transmitted.
\<close>

theorem microphone_failure_leaves_connecting:
  "status initial = connecting
   \<and> status (mount (Inl NotAllowedError)) = error
   \<and> streamRef (mount (Inl NotAllowedError)) = None
   \<and> sessionPromiseRef (mount (Inl NotAllowedError)) = None
   \<and> processorRef (mount (Inl NotAllowedError)) = None
   \<and> effects (mount (Inl NotAllowedError)) = []"
  by (simp add: mount_def startSession_def initial_def Let_def)

text \<open>
  Claim C9, amended: when the open callback has moved the controller from
  \<open>connecting\<close> to \<open>listening\<close>, both audio contexts are open, the capture stream is
  held, the remote session has been opened, the capture pipeline is connected, and
  every supplied file has been sent, in order, followed by one ready signal. This holds
  for a first start and for a retry (any state \<open>s0\<close> before \<open>startSession\<close>).
\<close>

theorem startup_complete_after_open:
  "status (startSession (Inr stream) s0) = connecting
   \<and> status (fire files Opened (startSession (Inr stream) s0)) = listening
   \<and> audioContextRef (fire files Opened (startSession (Inr stream) s0)) = Some (AudioContext 24000)
   \<and> inputContextRef (fire files Opened (startSession (Inr stream) s0)) = Some (AudioContext 16000)
   \<and> streamRef (fire files Opened (startSession (Inr stream) s0)) = Some stream
   \<and> sessionPromiseRef (fire files Opened (startSession (Inr stream) s0)) = Some SessionPromise
   \<and> processorRef (fire files Opened (startSession (Inr stream) s0)) = Some (ScriptProcessorNode 4096)
   \<and> effects (fire files Opened (startSession (Inr stream) s0))
       = effects s0 @ [LiveConnect, CaptureConnect] @ map SendRealtimeInput files
         @ [SendRealtimeInput ready_signal]"
  by (simp add: startSession_def onopen_def Let_def)

section \<open>Properties of image generation\<close>







end
